theory Spec2Isabelle
  imports Complex_Main
begin

section \<open>Segment intersection: the model of \<open>docs/js/utils/mathy.js\<close>\<close>

text \<open>
  The class \<open>Mathy\<close> has two static, pure methods: \<open>calculateIntersection(AB, CD)\<close>
  and \<open>lerp(A, B, t)\<close>. A point is an object \<open>{x, y}\<close>, a segment is an array of two
  points read as \<open>AB[0]\<close> and \<open>AB[1]\<close>, and the result is a point or \<open>null\<close>.

  Numbers: coordinates are exact reals, as in the data model of the specification
  (real-valued coordinates). Rounding, overflow and the sign of zero of the IEEE doubles
  of JavaScript are outside this model. What finite coordinates can still produce is a
  quotient with a zero divisor, which JavaScript evaluates to \<open>NaN\<close> or to an infinity
  and never raises on; the two quotients \<open>t\<close> and \<open>u\<close> of the source are therefore values
  of \<open>jsnum\<close>, and the comparisons of the source are the comparisons of \<open>jsnum\<close>, false on
  \<open>NaN\<close>.
\<close>

subsection \<open>Data\<close>

record point =
  x :: real
  y :: real

type_synonym segment = "point \<times> point"

datatype jsnum = Fin real | PosInf | NegInf | NaN

subsection \<open>JavaScript division and comparison\<close>

text \<open>
  \<open>n / d\<close> on finite operands: the real quotient when \<open>d\<close> is not zero, \<open>NaN\<close> for
  \<open>0 / 0\<close>, and an infinity otherwise. The divisor zero is read as \<open>+0\<close>, so the
  infinity takes the sign of the numerator.
\<close>

definition js_div :: "real \<Rightarrow> real \<Rightarrow> jsnum" where
  "js_div n d =
     (if d \<noteq> 0 then Fin (n / d)
      else if n = 0 then NaN
      else if 0 < n then PosInf
      else NegInf)"

text \<open>\<open>a >= b\<close> and \<open>a <= b\<close> with a finite right operand.\<close>

fun js_ge :: "jsnum \<Rightarrow> real \<Rightarrow> bool" where
  "js_ge (Fin a) b = (b \<le> a)"
| "js_ge PosInf b = True"
| "js_ge NegInf b = False"
| "js_ge NaN b = False"

fun js_le :: "jsnum \<Rightarrow> real \<Rightarrow> bool" where
  "js_le (Fin a) b = (a \<le> b)"
| "js_le PosInf b = False"
| "js_le NegInf b = True"
| "js_le NaN b = False"

subsection \<open>\<open>lerp\<close>\<close>

definition lerp :: "real \<Rightarrow> real \<Rightarrow> real \<Rightarrow> real" where
  "lerp A B t = A + (B - A) * t"

subsection \<open>\<open>calculateIntersection\<close>\<close>

text \<open>The four constants of the source, each a sum of eight products of coordinates.\<close>

definition tNumerator :: "segment \<Rightarrow> segment \<Rightarrow> real" where
  "tNumerator AB CD =
     (let AX = x (fst AB); AY = y (fst AB);
          CX = x (fst CD); CY = y (fst CD);
          DX = x (snd CD); DY = y (snd CD)
      in AY * DX -
         CY * DX -
         AY * CX +
         CY * CX -
         AX * DY +
         CX * DY +
         AX * CY -
         CX * CY)"

definition tDivider :: "segment \<Rightarrow> segment \<Rightarrow> real" where
  "tDivider AB CD =
     (let AX = x (fst AB); AY = y (fst AB);
          BX = x (snd AB); BY = y (snd AB);
          CX = x (fst CD); CY = y (fst CD);
          DX = x (snd CD); DY = y (snd CD)
      in BX * DY -
         AX * DY -
         BX * CY +
         AX * CY -
         BY * DX +
         AY * DX +
         BY * CX -
         AY * CX)"

definition uNumerator :: "segment \<Rightarrow> segment \<Rightarrow> real" where
  "uNumerator AB CD =
     (let AX = x (fst AB); AY = y (fst AB);
          BX = x (snd AB); BY = y (snd AB);
          CX = x (fst CD); CY = y (fst CD)
      in CX * BY -
         AX * BY -
         CX * AY +
         AX * AY -
         CY * BX +
         AY * BX +
         CY * AX -
         AY * AX)"

definition uDivider :: "segment \<Rightarrow> segment \<Rightarrow> real" where
  "uDivider AB CD =
     (let AX = x (fst AB); AY = y (fst AB);
          BX = x (snd AB); BY = y (snd AB);
          CX = x (fst CD); CY = y (fst CD);
          DX = x (snd CD); DY = y (snd CD)
      in DY * BX -
         CY * BX -
         DY * AX +
         CY * AX -
         DX * BY +
         CX * BY +
         DX * AY -
         CX * AY)"

text \<open>
  The \<open>if\<close> of the source and its two returns, as a function of the locals it reads:
  \<open>AB\<close>, \<open>t\<close>, \<open>u\<close> and \<open>tDivider\<close>. \<open>lerp\<close> is called only after \<open>t\<close> passed
  \<open>t >= 0 && t <= 1\<close>, where \<open>t\<close> is finite; the other constructors of \<open>jsnum\<close> fail that
  test (lemma \<open>in_range_finite\<close>) and never reach the call.
\<close>

definition acceptIntersection :: "segment \<Rightarrow> jsnum \<Rightarrow> jsnum \<Rightarrow> real \<Rightarrow> point option" where
  "acceptIntersection AB t u tDiv =
     (if js_ge t 0 \<and> js_le t 1 \<and> js_ge u 0 \<and> js_le u 1 \<and> tDiv \<noteq> 0
      then (case t of
              Fin tv \<Rightarrow>
                Some \<lparr>x = lerp (x (fst AB)) (x (snd AB)) tv,
                      y = lerp (y (fst AB)) (y (snd AB)) tv\<rparr>
            | _ \<Rightarrow> None)
      else None)"

definition calculateIntersection :: "segment \<Rightarrow> segment \<Rightarrow> point option" where
  "calculateIntersection AB CD =
     (let t = js_div (tNumerator AB CD) (tDivider AB CD);
          u = js_div (uNumerator AB CD) (uDivider AB CD)
      in acceptIntersection AB t u (tDivider AB CD))"

subsection \<open>The formula block of the specification\<close>







section \<open>Basic facts\<close>

lemma in_range_finite:
  "js_ge t 0 \<and> js_le t 1 \<longleftrightarrow> (\<exists>tv. t = Fin tv \<and> 0 \<le> tv \<and> tv \<le> 1)"
  by (cases t) simp_all


lemma dividers_equal: "uDivider AB CD = tDivider AB CD"
  by (simp add: uDivider_def tDivider_def Let_def algebra_simps)

text \<open>
  With \<open>uDivider = tDivider\<close>, the quotients of the source are real quotients whenever
  the result is not \<open>null\<close>, and the whole function reads as one conditional.
\<close>

lemma calculateIntersection_real:
  "calculateIntersection AB CD =
     (if tDivider AB CD \<noteq> 0 \<and>
         0 \<le> tNumerator AB CD / tDivider AB CD \<and> tNumerator AB CD / tDivider AB CD \<le> 1 \<and>
         0 \<le> uNumerator AB CD / tDivider AB CD \<and> uNumerator AB CD / tDivider AB CD \<le> 1
      then Some \<lparr>x = lerp (x (fst AB)) (x (snd AB)) (tNumerator AB CD / tDivider AB CD),
                 y = lerp (y (fst AB)) (y (snd AB)) (tNumerator AB CD / tDivider AB CD)\<rparr>
      else None)"
  by (simp add: calculateIntersection_def acceptIntersection_def dividers_equal js_div_def)









text \<open>The two quotients solve the system of the two interpolation equations.\<close>

lemma solves_system:
  assumes "tDivider AB CD \<noteq> 0"
  shows "lerp (x (fst AB)) (x (snd AB)) (tNumerator AB CD / tDivider AB CD) =
         lerp (x (fst CD)) (x (snd CD)) (uNumerator AB CD / tDivider AB CD)"
    and "lerp (y (fst AB)) (y (snd AB)) (tNumerator AB CD / tDivider AB CD) =
         lerp (y (fst CD)) (y (snd CD)) (uNumerator AB CD / tDivider AB CD)"
  using assms
  by (simp_all add: lerp_def field_simps)
     (simp_all add: tNumerator_def uNumerator_def tDivider_def Let_def algebra_simps)

section \<open>Claims\<close>

text \<open>
  C5. For all numbers \<open>a\<close>, \<open>b\<close>, \<open>t\<close>, \<open>lerp a b t\<close> is \<open>a + (b - a) * t\<close>, with no
  restriction on \<open>t\<close>: \<open>lerp 0 10 0.5 = 5\<close>, \<open>lerp 0 10 0 = 0\<close>, \<open>lerp 0 10 1 = 10\<close>, and
  outside the unit interval it extrapolates, \<open>lerp 0 10 2 = 20\<close>.
\<close>

theorem lerp_formula:
  "lerp a b t = a + (b - a) * t \<and>
   lerp 0 10 (1 / 2) = 5 \<and> lerp 0 10 0 = 0 \<and> lerp 0 10 1 = 10 \<and> lerp 0 10 2 = 20"
  by (simp add: lerp_def)

text \<open>
  C6. For the crossing segments \<open>AB = (0,0)-(10,10)\<close> and \<open>CD = (0,10)-(10,0)\<close>,
  \<open>calculateIntersection\<close> returns the point \<open>(5,5)\<close>.
\<close>

theorem crossing_segments_example:
  "calculateIntersection (\<lparr>x = 0, y = 0\<rparr>, \<lparr>x = 10, y = 10\<rparr>) (\<lparr>x = 0, y = 10\<rparr>, \<lparr>x = 10, y = 0\<rparr>)
     = Some \<lparr>x = 5, y = 5\<rparr>"
  by (simp add: calculateIntersection_def acceptIntersection_def tNumerator_def tDivider_def
      uNumerator_def uDivider_def js_div_def lerp_def)

text \<open>
  C10. For every input the \<open>uDivider\<close> expression equals the \<open>tDivider\<close> expression (they
  are sums of the same eight products), so \<open>uDivider\<close> is zero exactly when \<open>tDivider\<close>
  is, and the case "\<open>uDivider\<close> zero while \<open>tDivider\<close> nonzero" cannot occur over exact
  arithmetic.
\<close>

theorem uDivider_is_tDivider:
  "uDivider AB CD = tDivider AB CD \<and>
   ((uDivider AB CD = 0) = (tDivider AB CD = 0)) \<and>
   \<not> (uDivider AB CD = 0 \<and> tDivider AB CD \<noteq> 0)"
  by (simp add: uDivider_def tDivider_def Let_def algebra_simps)




text \<open>
  C4. When \<open>calculateIntersection\<close> accepts (\<open>tDivider\<close> is not zero and \<open>t\<close>, \<open>u\<close> are in
  \<open>[0,1]\<close>), the point it returns is \<open>{x: lerp(A.x, B.x, t), y: lerp(A.y, B.y, t)}\<close>: the
  interpolation along \<open>AB\<close> with \<open>t\<close>.
\<close>

theorem accepted_point_is_lerp_on_AB:
  assumes "tDivider AB CD \<noteq> 0"
    and "t = tNumerator AB CD / tDivider AB CD"
    and "u = uNumerator AB CD / uDivider AB CD"
    and "0 \<le> t" and "t \<le> 1" and "0 \<le> u" and "u \<le> 1"
  shows "calculateIntersection AB CD =
           Some \<lparr>x = lerp (x (fst AB)) (x (snd AB)) t, y = lerp (y (fst AB)) (y (snd AB)) t\<rparr>"
  using assms by (simp add: calculateIntersection_real dividers_equal)

theorem accepted_point_is_lerp_on_AB_witness:
  "tDivider (\<lparr>x = 0, y = 0\<rparr>, \<lparr>x = 4, y = 0\<rparr>) (\<lparr>x = 1, y = -1\<rparr>, \<lparr>x = 1, y = 3\<rparr>) \<noteq> 0 \<and>
   tNumerator (\<lparr>x = 0, y = 0\<rparr>, \<lparr>x = 4, y = 0\<rparr>) (\<lparr>x = 1, y = -1\<rparr>, \<lparr>x = 1, y = 3\<rparr>) /
     tDivider (\<lparr>x = 0, y = 0\<rparr>, \<lparr>x = 4, y = 0\<rparr>) (\<lparr>x = 1, y = -1\<rparr>, \<lparr>x = 1, y = 3\<rparr>) = 1 / 4 \<and>
   uNumerator (\<lparr>x = 0, y = 0\<rparr>, \<lparr>x = 4, y = 0\<rparr>) (\<lparr>x = 1, y = -1\<rparr>, \<lparr>x = 1, y = 3\<rparr>) /
     uDivider (\<lparr>x = 0, y = 0\<rparr>, \<lparr>x = 4, y = 0\<rparr>) (\<lparr>x = 1, y = -1\<rparr>, \<lparr>x = 1, y = 3\<rparr>) = 1 / 4 \<and>
   calculateIntersection (\<lparr>x = 0, y = 0\<rparr>, \<lparr>x = 4, y = 0\<rparr>) (\<lparr>x = 1, y = -1\<rparr>, \<lparr>x = 1, y = 3\<rparr>)
     = Some \<lparr>x = 1, y = 0\<rparr>"
proof -
  let ?AB = "(\<lparr>x = 0, y = 0\<rparr>, \<lparr>x = 4, y = 0\<rparr>)"
  let ?CD = "(\<lparr>x = 1, y = -1\<rparr>, \<lparr>x = 1, y = 3\<rparr>)"
  have d: "tDivider ?AB ?CD \<noteq> 0" by (simp add: tDivider_def)
  have t: "1 / 4 = tNumerator ?AB ?CD / tDivider ?AB ?CD"
    by (simp add: tNumerator_def tDivider_def)
  have u: "1 / 4 = uNumerator ?AB ?CD / uDivider ?AB ?CD"
    by (simp add: uNumerator_def uDivider_def)
  have "calculateIntersection ?AB ?CD =
          Some \<lparr>x = lerp (x (fst ?AB)) (x (snd ?AB)) (1 / 4),
                y = lerp (y (fst ?AB)) (y (snd ?AB)) (1 / 4)\<rparr>"
    by (rule accepted_point_is_lerp_on_AB [OF d t u]) simp_all
  then have "calculateIntersection ?AB ?CD = Some \<lparr>x = 1, y = 0\<rparr>"
    by (simp add: lerp_def)
  with d t u show ?thesis by simp
qed

text \<open>
  C9. When \<open>calculateIntersection\<close> accepts, the point interpolated along \<open>AB\<close> with
  \<open>t\<close> is the point interpolated along \<open>CD\<close> with \<open>u\<close>, in both coordinates (over exact
  arithmetic); the returned point is therefore also the interpolation along \<open>CD\<close>.
\<close>

theorem lerp_on_AB_equals_lerp_on_CD:
  assumes "calculateIntersection AB CD = Some P"
    and "t = tNumerator AB CD / tDivider AB CD"
    and "u = uNumerator AB CD / uDivider AB CD"
  shows "lerp (x (fst AB)) (x (snd AB)) t = lerp (x (fst CD)) (x (snd CD)) u \<and>
         lerp (y (fst AB)) (y (snd AB)) t = lerp (y (fst CD)) (y (snd CD)) u \<and>
         P = \<lparr>x = lerp (x (fst CD)) (x (snd CD)) u, y = lerp (y (fst CD)) (y (snd CD)) u\<rparr>"
proof -
  from assms(1) have d: "tDivider AB CD \<noteq> 0"
    by (simp add: calculateIntersection_real split: if_splits)
  from assms(1) have P: "P = \<lparr>x = lerp (x (fst AB)) (x (snd AB)) t,
                              y = lerp (y (fst AB)) (y (snd AB)) t\<rparr>"
    by (simp add: calculateIntersection_real assms(2) split: if_splits)
  have u: "u = uNumerator AB CD / tDivider AB CD"
    by (simp add: assms(3) dividers_equal)
  from solves_system [OF d] show ?thesis
    by (simp add: P u assms(2))
qed

theorem lerp_on_AB_equals_lerp_on_CD_witness:
  "calculateIntersection (\<lparr>x = 0, y = 0\<rparr>, \<lparr>x = 6, y = 3\<rparr>) (\<lparr>x = 1, y = 3\<rparr>, \<lparr>x = 5, y = -1\<rparr>)
     = Some \<lparr>x = 8 / 3, y = 4 / 3\<rparr> \<and>
   lerp 0 6 (4 / 9) = lerp 1 5 (5 / 12) \<and>
   lerp 0 3 (4 / 9) = lerp 3 (-1) (5 / 12) \<and>
   \<lparr>x = 8 / 3, y = 4 / 3\<rparr> = \<lparr>x = lerp 1 5 (5 / 12), y = lerp 3 (-1) (5 / 12)\<rparr>"
proof -
  let ?AB = "(\<lparr>x = 0, y = 0\<rparr>, \<lparr>x = 6, y = 3\<rparr>)"
  let ?CD = "(\<lparr>x = 1, y = 3\<rparr>, \<lparr>x = 5, y = -1\<rparr>)"
  have r: "calculateIntersection ?AB ?CD = Some \<lparr>x = 8 / 3, y = 4 / 3\<rparr>"
    by (simp add: calculateIntersection_def acceptIntersection_def tNumerator_def tDivider_def
        uNumerator_def uDivider_def js_div_def lerp_def)
  have t: "4 / 9 = tNumerator ?AB ?CD / tDivider ?AB ?CD"
    by (simp add: tNumerator_def tDivider_def)
  have u: "5 / 12 = uNumerator ?AB ?CD / uDivider ?AB ?CD"
    by (simp add: uNumerator_def uDivider_def)
  from lerp_on_AB_equals_lerp_on_CD [OF r t u] r show ?thesis
    by simp
qed








end
